theory Spec2Isabelle
  imports Main
begin

section \<open>The signaling server of p2p-file-share (src/server.js)\<close>

text \<open>
  The server keeps one JavaScript \<^verbatim>\<open>Map\<close> from pins to session objects and reacts to
  four kinds of events: a text message arriving on a connection, a connection closing,
  a connection reporting an error, and the cleanup timer firing. Each reaction is
  modelled as a function from the registry before the event to the registry after it,
  together with the list of \<^verbatim>\<open>send\<close> calls the reaction makes, in the order of the calls.
  What the reactions read from their surroundings is given to them as arguments: the
  clock (\<^verbatim>\<open>Date.now()\<close>) and the \<^verbatim>\<open>readyState\<close> of every connection. What is written
  to the console is not part of the model, but building the line to write is: a log line
  that is a template with a value of a message in it converts that value to a string, and
  the conversion can throw.
\<close>

subsection \<open>Values\<close>

text \<open>
  A connection (the \<^verbatim>\<open>ws\<close> object of the source) is known by its identity only.
\<close>

type_synonym ws = nat

text \<open>
  The four values of \<^verbatim>\<open>ws.readyState\<close>; the source compares with \<^verbatim>\<open>WebSocket.OPEN\<close>.
\<close>

datatype readyState = CONNECTING | OPEN | CLOSING | CLOSED

text \<open>
  What \<^verbatim>\<open>JSON.parse\<close> returns, and \<^verbatim>\<open>undefined\<close> for a property that is not there.
  The router never computes with the numbers of a message, so their carrier is the type
  parameter \<open>'n\<close>. An array or object carries the identity of its allocation
  (every \<^verbatim>\<open>JSON.parse\<close> allocates its own), so that equality of these terms is the equality
  a \<^verbatim>\<open>Map\<close> uses for its keys: by value for primitives, by identity for objects.
\<close>

datatype 'n jsval =
    JUndefined
  | JNull
  | JBool bool
  | JNum 'n
  | JStr string
  | JArr nat "'n jsval list"
  | JObj nat "(string \<times> 'n jsval) list"

text \<open>
  Reading a property throws a \<^verbatim>\<open>TypeError\<close> on \<^verbatim>\<open>null\<close> and \<^verbatim>\<open>undefined\<close>; every use of
  \<open>property\<close> below comes after the test \<open>nullish\<close> that stands for the throw. On any other
  value the names the source reads (\<^verbatim>\<open>type\<close>, \<^verbatim>\<open>pin\<close>, \<^verbatim>\<open>fileName\<close>, \<^verbatim>\<open>fileSize\<close>) are own
  properties of a decoded object or they are \<^verbatim>\<open>undefined\<close>.
\<close>

fun nullish :: "'n jsval \<Rightarrow> bool" where
  "nullish JUndefined = True"
| "nullish JNull = True"
| "nullish _ = False"

fun property :: "'n jsval \<Rightarrow> string \<Rightarrow> 'n jsval" where
  "property (JObj r ps) k = (case map_of ps k of Some v \<Rightarrow> v | None \<Rightarrow> JUndefined)"
| "property _ k = JUndefined"

text \<open>
  A template \<^verbatim>\<open>`... ${v} ...`\<close> converts \<open>v\<close> to a string. For a decoded object the
  conversion looks up \<^verbatim>\<open>toString\<close> and then \<^verbatim>\<open>valueOf\<close> and calls the first that is a
  function and returns a primitive. An own property of a decoded object is never a
  function, so an object with an own \<^verbatim>\<open>toString\<close> is left with \<^verbatim>\<open>valueOf\<close>, which is its
  own property or the inherited one that returns the object itself: the conversion ends
  in a \<^verbatim>\<open>TypeError\<close>. Without an own \<^verbatim>\<open>toString\<close> the inherited one answers. An array is
  joined: its elements other than \<^verbatim>\<open>null\<close> are converted in turn. Primitives convert.
\<close>

fun ToString_throws :: "'n jsval \<Rightarrow> bool" where
  "ToString_throws (JObj r ps) = (''toString'' \<in> set (map fst ps))"
| "ToString_throws (JArr r xs) = (\<exists>x \<in> set xs. ToString_throws x)"
| "ToString_throws _ = False"

subsection \<open>The session registry\<close>

text \<open>
  The object stored by \<^verbatim>\<open>handleCreateSession\<close>. \<^verbatim>\<open>receiver: null\<close> is \<open>None\<close>;
  \<^verbatim>\<open>created\<close> is a number of milliseconds.
\<close>

record 'n session =
  sender :: ws
  receiver :: "ws option"
  fileName :: "'n jsval"
  fileSize :: "'n jsval"
  created :: int

text \<open>
  A \<^verbatim>\<open>Map\<close> iterates in insertion order, and the close handler depends on that order, so
  the registry is the list of its entries, oldest first. \<^verbatim>\<open>set\<close> replaces the value of a
  key that is present where it stands and appends a new key; \<^verbatim>\<open>delete\<close> removes the key.
\<close>

type_synonym 'n registry = "('n jsval \<times> 'n session) list"

definition Map_has :: "('k \<times> 'v) list \<Rightarrow> 'k \<Rightarrow> bool" where
  "Map_has m k = (k \<in> set (map fst m))"

definition Map_get :: "('k \<times> 'v) list \<Rightarrow> 'k \<Rightarrow> 'v option" where
  "Map_get m k = map_of m k"

fun Map_set :: "('k \<times> 'v) list \<Rightarrow> 'k \<Rightarrow> 'v \<Rightarrow> ('k \<times> 'v) list" where
  "Map_set [] k v = [(k, v)]"
| "Map_set ((k', v') # m) k v =
     (if k' = k then (k, v) # m else (k', v') # Map_set m k v)"

definition Map_delete :: "('k \<times> 'v) list \<Rightarrow> 'k \<Rightarrow> ('k \<times> 'v) list" where
  "Map_delete m k = filter (\<lambda>e. fst e \<noteq> k) m"

text \<open>The keys of a \<^verbatim>\<open>Map\<close> are pairwise different.\<close>

definition is_Map :: "('k \<times> 'v) list \<Rightarrow> bool" where
  "is_Map m = distinct (map fst m)"

subsection \<open>Outbound messages\<close>

text \<open>
  Each constructor is the JSON text of one object literal of the source, with the values
  it is built from; \<open>Forward data\<close> is \<^verbatim>\<open>JSON.stringify(data)\<close> of the decoded record
  itself. A send is the pair of the connection whose \<^verbatim>\<open>send\<close> is called and the text.
\<close>

datatype 'n outbound =
    PinTaken
  | SessionCreated "'n jsval" "'n jsval" "'n jsval"
  | SessionNotFound
  | SessionFull
  | ReceiverJoined "'n jsval" "'n jsval"
  | SessionJoined "'n jsval" "'n jsval"
  | Forward "'n jsval"

type_synonym 'n sends = "(ws \<times> 'n outbound) list"

subsection \<open>The handlers\<close>

text \<open>
  The three handlers are called from the message handler only, after it has read
  \<^verbatim>\<open>data.type\<close>, so \<open>data\<close> is not \<^verbatim>\<open>null\<close> when they take it apart. An exception
  that leaves a handler is caught by the message handler; what the handler did before
  stays done. The result of a handler is the registry and the sends at the point where
  it returns or throws.

  \<^verbatim>\<open>handleCreateSession\<close> logs the pin, the file name and the file size between
  \<^verbatim>\<open>sessions.set\<close> and \<^verbatim>\<open>ws.send\<close>: when one of the three does not convert to a string,
  the session is stored and nothing is sent.
\<close>

definition handleCreateSession ::
  "int \<Rightarrow> ws \<Rightarrow> 'n jsval \<Rightarrow> 'n registry \<Rightarrow> 'n registry \<times> 'n sends" where
  "handleCreateSession now ws data sessions =
     (let pin = property data ''pin'';
          fileName' = property data ''fileName'';
          fileSize' = property data ''fileSize''
      in if Map_has sessions pin then (sessions, [(ws, PinTaken)])
         else (Map_set sessions pin
                 \<lparr>sender = ws, receiver = None, fileName = fileName',
                  fileSize = fileSize', created = now\<rparr>,
               if ToString_throws pin \<or> ToString_throws fileName'
                    \<or> ToString_throws fileSize'
               then []
               else [(ws, SessionCreated pin fileName' fileSize')]))"

text \<open>
  \<^verbatim>\<open>session.receiver = ws\<close> writes into the object the \<^verbatim>\<open>Map\<close> holds: the entry keeps its
  place and has the new receiver. The log line after it converts a pin that was found in
  the \<^verbatim>\<open>Map\<close>: the pin of a message is found only if it is a primitive, an object being
  a new allocation and no key, so this conversion does not throw.
\<close>

definition handleJoinSession ::
  "(ws \<Rightarrow> readyState) \<Rightarrow> ws \<Rightarrow> 'n jsval \<Rightarrow> 'n registry \<Rightarrow> 'n registry \<times> 'n sends" where
  "handleJoinSession rs ws data sessions =
     (let pin = property data ''pin'' in
      case Map_get sessions pin of
        None \<Rightarrow> (sessions, [(ws, SessionNotFound)])
      | Some session \<Rightarrow>
          if receiver session \<noteq> None then (sessions, [(ws, SessionFull)])
          else (Map_set sessions pin (session\<lparr>receiver := Some ws\<rparr>),
                (if rs (sender session) = OPEN
                 then [(sender session,
                        ReceiverJoined (fileName session) (fileSize session))]
                 else [])
                @ [(ws, SessionJoined (fileName session) (fileSize session))]))"

text \<open>
  The peer of \<open>ws\<close> in a session, \<open>None\<close> for \<^verbatim>\<open>null\<close>. The log lines of
  \<^verbatim>\<open>handleSignalingMessage\<close> come after its last send and convert the type, one of three
  strings, and a pin that was found.
\<close>

definition targetWs :: "'n session \<Rightarrow> ws \<Rightarrow> ws option" where
  "targetWs session ws =
     (if sender session = ws then receiver session
      else if receiver session = Some ws then Some (sender session)
      else None)"

definition handleSignalingMessage ::
  "(ws \<Rightarrow> readyState) \<Rightarrow> ws \<Rightarrow> 'n jsval \<Rightarrow> 'n registry \<Rightarrow> 'n registry \<times> 'n sends" where
  "handleSignalingMessage rs ws data sessions =
     (let pin = property data ''pin'' in
      case Map_get sessions pin of
        None \<Rightarrow> (sessions, [(ws, SessionNotFound)])
      | Some session \<Rightarrow>
          (case targetWs session ws of
             Some t \<Rightarrow> if rs t = OPEN then (sessions, [(t, Forward data)])
                       else (sessions, [])
           | None \<Rightarrow> (sessions, [])))"

subsection \<open>The events\<close>

text \<open>
  The message handler: \<open>None\<close> is a text that \<^verbatim>\<open>JSON.parse\<close> rejects. That exception and
  the \<^verbatim>\<open>TypeError\<close> of \<^verbatim>\<open>data.type\<close> on \<^verbatim>\<open>null\<close> are caught and logged; the \<^verbatim>\<open>switch\<close>
  compares \<^verbatim>\<open>data.type\<close> with its five labels by \<^verbatim>\<open>===\<close>.
\<close>

definition on_message ::
  "(ws \<Rightarrow> readyState) \<Rightarrow> int \<Rightarrow> ws \<Rightarrow> 'n jsval option \<Rightarrow> 'n registry
     \<Rightarrow> 'n registry \<times> 'n sends" where
  "on_message rs now ws message sessions =
     (case message of
        None \<Rightarrow> (sessions, [])
      | Some data \<Rightarrow>
          if nullish data then (sessions, [])
          else let t = property data ''type'' in
            if t = JStr ''create-session'' then handleCreateSession now ws data sessions
            else if t = JStr ''join-session'' then handleJoinSession rs ws data sessions
            else if t = JStr ''offer'' \<or> t = JStr ''answer'' \<or> t = JStr ''ice-candidate''
              then handleSignalingMessage rs ws data sessions
            else (sessions, []))"

text \<open>
  The close handler walks the entries in order and deletes the first one that has the
  closed connection as sender or receiver, logs its pin, and leaves the loop. Nothing
  catches an exception of this handler: when the pin does not convert to a string the
  handler ends in a \<^verbatim>\<open>TypeError\<close> after the deletion. The loop gives the registry it
  leaves and whether it threw.
\<close>

fun close_loop :: "ws \<Rightarrow> 'n registry \<Rightarrow> 'n registry \<Rightarrow> 'n registry \<times> bool" where
  "close_loop ws [] sessions = (sessions, False)"
| "close_loop ws ((pin, session) # entries) sessions =
     (if sender session = ws \<or> receiver session = Some ws
      then (Map_delete sessions pin, ToString_throws pin)
      else close_loop ws entries sessions)"

definition on_close :: "ws \<Rightarrow> 'n registry \<Rightarrow> 'n registry" where
  "on_close ws sessions = fst (close_loop ws sessions sessions)"

definition on_close_throws :: "ws \<Rightarrow> 'n registry \<Rightarrow> bool" where
  "on_close_throws ws sessions = snd (close_loop ws sessions sessions)"

text \<open>
  The cleanup timer: every entry whose age is more than an hour of milliseconds is
  deleted and its pin is logged. Deleting the entry being visited does not disturb the
  iteration of a \<^verbatim>\<open>Map\<close>, so the loop is over the entries as they were when it started.
  Nothing catches an exception of the timer callback: at the first deleted entry whose
  pin does not convert to a string the callback ends in a \<^verbatim>\<open>TypeError\<close>, and the entries
  after it are not visited. The loop gives the registry it leaves and whether it threw.
\<close>

definition max_age :: int where
  "max_age = 3600000"

fun cleanup_loop :: "int \<Rightarrow> 'n registry \<Rightarrow> 'n registry \<Rightarrow> 'n registry \<times> bool" where
  "cleanup_loop now [] sessions = (sessions, False)"
| "cleanup_loop now ((pin, session) # entries) sessions =
     (if now - created session > max_age
      then (if ToString_throws pin then (Map_delete sessions pin, True)
            else cleanup_loop now entries (Map_delete sessions pin))
      else cleanup_loop now entries sessions)"

definition cleanup :: "int \<Rightarrow> 'n registry \<Rightarrow> 'n registry" where
  "cleanup now sessions = fst (cleanup_loop now sessions sessions)"

definition cleanup_throws :: "int \<Rightarrow> 'n registry \<Rightarrow> bool" where
  "cleanup_throws now sessions = snd (cleanup_loop now sessions sessions)"

text \<open>
  One event of the server, in the surroundings \<open>rs\<close> and \<open>now\<close> it happens in: \<open>step\<close>
  is the registry the event leaves and the sends it makes, \<open>uncaught\<close> tells whether it
  ends in an exception that nothing catches, after which the process is gone. The message
  handler catches every exception of its body, and the error handler only logs.
\<close>

datatype 'n event =
    Message ws "'n jsval option"
  | Close ws
  | Error ws
  | Timer

fun step ::
  "(ws \<Rightarrow> readyState) \<Rightarrow> int \<Rightarrow> 'n event \<Rightarrow> 'n registry \<Rightarrow> 'n registry \<times> 'n sends" where
  "step rs now (Message ws message) sessions = on_message rs now ws message sessions"
| "step rs now (Close ws) sessions = (on_close ws sessions, [])"
| "step rs now (Error ws) sessions = (sessions, [])"
| "step rs now Timer sessions = (cleanup now sessions, [])"

fun uncaught :: "int \<Rightarrow> 'n event \<Rightarrow> 'n registry \<Rightarrow> bool" where
  "uncaught now (Message ws message) sessions = False"
| "uncaught now (Close ws) sessions = on_close_throws ws sessions"
| "uncaught now (Error ws) sessions = False"
| "uncaught now Timer sessions = cleanup_throws now sessions"


subsection \<open>Values used in the scenarios\<close>

text \<open>
  Every connection in the open state; the decoded messages of the scenarios, with numbers
  as integers; and the sessions that connection 1 creates from \<open>create_a\<close>, \<open>create_b\<close>
  and \<open>create_c\<close> at a given time. The pin of \<open>create_c\<close> is the object
  \<^verbatim>\<open>{"toString":0}\<close>, which does not convert to a string.
\<close>

definition all_open :: "ws \<Rightarrow> readyState" where
  "all_open ws = OPEN"

definition create_a :: "int jsval" where
  "create_a = JObj 0 [(''type'', JStr ''create-session''), (''pin'', JStr ''1234''),
                      (''fileName'', JStr ''a.txt''), (''fileSize'', JNum 10)]"

definition create_a' :: "int jsval" where
  "create_a' = JObj 1 [(''type'', JStr ''create-session''), (''pin'', JStr ''1111''),
                       (''fileName'', JStr ''a.txt''), (''fileSize'', JNum 10)]"

definition create_b :: "int jsval" where
  "create_b = JObj 2 [(''type'', JStr ''create-session''), (''pin'', JStr ''2222''),
                      (''fileName'', JStr ''b.txt''), (''fileSize'', JNum 20)]"

definition join_1234 :: "int jsval" where
  "join_1234 = JObj 3 [(''type'', JStr ''join-session''), (''pin'', JStr ''1234'')]"

definition join_2222 :: "int jsval" where
  "join_2222 = JObj 4 [(''type'', JStr ''join-session''), (''pin'', JStr ''2222'')]"

definition offer_1234 :: "int jsval" where
  "offer_1234 = JObj 5 [(''type'', JStr ''offer''), (''pin'', JStr ''1234''),
                        (''sdp'', JStr ''v=0'')]"

definition answer_1234 :: "int jsval" where
  "answer_1234 = JObj 6 [(''type'', JStr ''answer''), (''pin'', JStr ''1234''),
                         (''sdp'', JStr ''v=0'')]"

definition offer_2222 :: "int jsval" where
  "offer_2222 = JObj 7 [(''type'', JStr ''offer''), (''pin'', JStr ''2222''),
                        (''sdp'', JStr ''v=0'')]"

definition pin_c :: "int jsval" where
  "pin_c = JObj 8 [(''toString'', JNum 0)]"

definition create_c :: "int jsval" where
  "create_c = JObj 9 [(''type'', JStr ''create-session''), (''pin'', pin_c),
                      (''fileName'', JStr ''c.txt''), (''fileSize'', JNum 30)]"

definition session_a :: "int \<Rightarrow> int session" where
  "session_a t = \<lparr>sender = 1, receiver = None, fileName = JStr ''a.txt'',
                  fileSize = JNum 10, created = t\<rparr>"

definition session_b :: "int \<Rightarrow> int session" where
  "session_b t = \<lparr>sender = 1, receiver = None, fileName = JStr ''b.txt'',
                  fileSize = JNum 20, created = t\<rparr>"

definition session_c :: "int \<Rightarrow> int session" where
  "session_c t = \<lparr>sender = 1, receiver = None, fileName = JStr ''c.txt'',
                  fileSize = JNum 30, created = t\<rparr>"

lemmas scenario_defs =
  all_open_def create_a_def create_a'_def create_b_def join_1234_def join_2222_def
  offer_1234_def answer_1234_def offer_2222_def pin_c_def create_c_def
  session_a_def session_b_def session_c_def

section \<open>Facts about the registry operations\<close>

lemma Map_has_map_of: "Map_has m k \<longleftrightarrow> map_of m k \<noteq> None"
  by (simp add: Map_has_def map_of_eq_None_iff)

lemma Map_set_fresh: "\<not> Map_has m k \<Longrightarrow> Map_set m k v = m @ [(k, v)]"
  by (induction m) (auto simp: Map_has_def)

lemma map_of_Map_set: "map_of (Map_set m k v) k' = (if k' = k then Some v else map_of m k')"
  by (induction m) auto

lemma map_of_Map_delete: "map_of (Map_delete m k) k' = (if k' = k then None else map_of m k')"
  by (induction m) (auto simp: Map_delete_def)

lemma keys_Map_set: "fst ` set (Map_set m k v) = insert k (fst ` set m)"
proof -
  have "dom (map_of (Map_set m k v)) = insert k (dom (map_of m))"
    by (auto simp: map_of_Map_set dom_def)
  then show ?thesis by (simp add: dom_map_of_conv_image_fst)
qed

lemma is_Map_set: "is_Map m \<Longrightarrow> is_Map (Map_set m k v)"
  by (induction m) (auto simp: is_Map_def keys_Map_set)

lemma is_Map_delete: "is_Map m \<Longrightarrow> is_Map (Map_delete m k)"
  by (simp add: is_Map_def Map_delete_def distinct_map_filter)

text \<open>
  The close handler deletes the key of the first entry that has the connection as sender
  or receiver, and throws when that key does not convert to a string; without such an
  entry it does nothing.
\<close>

lemma close_loop_find:
  "close_loop ws es m =
     (case find (\<lambda>e. sender (snd e) = ws \<or> receiver (snd e) = Some ws) es of
        None \<Rightarrow> (m, False)
      | Some e \<Rightarrow> (Map_delete m (fst e), ToString_throws (fst e)))"
  by (induction es) auto

lemma find_in_prefix:
  "e \<in> set xs \<Longrightarrow> P e \<Longrightarrow> \<exists>x \<in> set xs. find P (xs @ ys) = Some x \<and> P x"
proof (induction xs)
  case Nil
  then show ?case by simp
next
  case (Cons a xs)
  show ?case
  proof (cases "P a")
    case True
    then show ?thesis by simp
  next
    case False
    then have "e \<in> set xs" using Cons.prems by auto
    then obtain x where "x \<in> set xs" "find P (xs @ ys) = Some x" "P x"
      using Cons.IH Cons.prems(2) by blast
    then show ?thesis using False by auto
  qed
qed

lemma map_of_on_close_cases:
  "map_of (on_close ws m) p = None \<or> map_of (on_close ws m) p = map_of m p"
  by (simp add: on_close_def close_loop_find map_of_Map_delete split: option.splits)

lemma is_Map_on_close: "is_Map m \<Longrightarrow> is_Map (on_close ws m)"
  by (simp add: on_close_def close_loop_find is_Map_delete split: option.splits)

text \<open>
  The cleanup loop only deletes; it keeps a pin none of whose entries is too old; and when
  it runs to its end it has removed every pin with an entry that is too old. It runs to
  its end when every pin converts to a string.
\<close>

lemma cleanup_loop_cases:
  "map_of (fst (cleanup_loop now es m)) p = None
     \<or> map_of (fst (cleanup_loop now es m)) p = map_of m p"
proof (induction es arbitrary: m)
  case Nil
  show ?case by simp
next
  case (Cons e es)
  obtain k s where e: "e = (k, s)" by (cases e)
  show ?case
    using Cons.IH [of m] Cons.IH [of "Map_delete m k"]
    unfolding e by (auto simp: map_of_Map_delete split: if_splits)
qed

lemma cleanup_loop_keeps:
  "(\<And>s'. (p, s') \<in> set es \<Longrightarrow> \<not> max_age < now - created s') \<Longrightarrow>
     map_of (fst (cleanup_loop now es m)) p = map_of m p"
proof (induction es arbitrary: m)
  case Nil
  show ?case by simp
next
  case (Cons e es)
  obtain k s where e: "e = (k, s)" by (cases e)
  have rest: "\<And>m'. map_of (fst (cleanup_loop now es m')) p = map_of m' p"
    using Cons.IH Cons.prems by simp
  show ?case
  proof (cases "max_age < now - created s")
    case True
    then have "k \<noteq> p" using Cons.prems [of s] unfolding e by auto
    then show ?thesis unfolding e using True by (simp add: rest map_of_Map_delete)
  next
    case False
    then show ?thesis unfolding e by (simp add: rest)
  qed
qed

lemma cleanup_loop_removes:
  "\<not> snd (cleanup_loop now es m) \<Longrightarrow> (p, s) \<in> set es \<Longrightarrow> max_age < now - created s \<Longrightarrow>
     map_of (fst (cleanup_loop now es m)) p = None"
proof (induction es arbitrary: m)
  case Nil
  then show ?case by simp
next
  case (Cons e es)
  obtain k s' where e: "e = (k, s')" by (cases e)
  show ?case
  proof (cases "e = (p, s)")
    case True
    then have ks: "k = p" "s' = s" using e by simp_all
    have nt: "\<not> ToString_throws p"
      using Cons.prems(1,3) unfolding e ks by (auto split: if_splits)
    have "cleanup_loop now (e # es) m = cleanup_loop now es (Map_delete m p)"
      unfolding e ks using Cons.prems(3) nt by simp
    then show ?thesis
      using cleanup_loop_cases [of now es "Map_delete m p" p]
      by (simp add: map_of_Map_delete)
  next
    case False
    then have mem: "(p, s) \<in> set es" using Cons.prems(2) by auto
    show ?thesis
    proof (cases "max_age < now - created s'")
      case True
      then have nt: "\<not> ToString_throws k"
        using Cons.prems(1) unfolding e by (auto split: if_splits)
      have eq: "cleanup_loop now (e # es) m = cleanup_loop now es (Map_delete m k)"
        unfolding e using True nt by simp
      show ?thesis
        using Cons.IH [of "Map_delete m k"] Cons.prems(1,3) mem unfolding eq by simp
    next
      case False
      then have eq: "cleanup_loop now (e # es) m = cleanup_loop now es m"
        unfolding e by simp
      show ?thesis
        using Cons.IH [of m] Cons.prems(1,3) mem unfolding eq by simp
    qed
  qed
qed

lemma cleanup_loop_no_throw:
  "(\<And>k. k \<in> fst ` set es \<Longrightarrow> \<not> ToString_throws k) \<Longrightarrow> \<not> snd (cleanup_loop now es m)"
proof (induction es arbitrary: m)
  case Nil
  show ?case by simp
next
  case (Cons e es)
  obtain k s where e: "e = (k, s)" by (cases e)
  have "\<not> ToString_throws k" using Cons.prems [of k] unfolding e by simp
  moreover have "\<And>m'. \<not> snd (cleanup_loop now es m')"
    using Cons.IH Cons.prems by simp
  ultimately show ?case unfolding e by simp
qed

lemma is_Map_cleanup_loop: "is_Map m \<Longrightarrow> is_Map (fst (cleanup_loop now es m))"
proof (induction es arbitrary: m)
  case Nil
  then show ?case by simp
next
  case (Cons e es)
  obtain k s where e: "e = (k, s)" by (cases e)
  show ?case
    using Cons.IH [of m] Cons.IH [of "Map_delete m k"] Cons.prems
    unfolding e by (simp add: is_Map_delete)
qed

lemma map_of_cleanup_cases:
  "map_of (cleanup now m) p = None \<or> map_of (cleanup now m) p = map_of m p"
  unfolding cleanup_def by (rule cleanup_loop_cases)

lemma is_Map_cleanup: "is_Map m \<Longrightarrow> is_Map (cleanup now m)"
  unfolding cleanup_def by (rule is_Map_cleanup_loop)

text \<open>
  A sweep that does not run to its end: the first entry is too old and its pin is the
  object of \<open>create_c\<close>; the second entry is as old and stays.
\<close>

lemma cleanup_aborted:
  "cleanup 3600001 [(pin_c, session_c 0), (JStr ''1234'', session_a 0)] = [(JStr ''1234'', session_a 0)]
   \<and> cleanup_throws 3600001 [(pin_c, session_c 0), (JStr ''1234'', session_a 0)]"
  by (simp add: cleanup_def cleanup_throws_def Map_delete_def max_age_def scenario_defs)

text \<open>
  A close that ends in the exception of its log line: connection 1 is the sender of the
  session under the pin of \<open>create_c\<close>. The session is deleted before the throw.
\<close>

lemma close_uncaught:
  "on_close 1 [(pin_c, session_c 5)] = []
   \<and> on_close_throws 1 [(pin_c, session_c 5)]
   \<and> uncaught 6 (Close 1) [(pin_c, session_c 5)]"
  by (simp add: on_close_def on_close_throws_def Map_delete_def scenario_defs)

text \<open>
  Every event keeps the keys of the registry pairwise different, as they are in the empty
  registry the server starts with.
\<close>

lemma is_Map_empty: "is_Map []"
  by (simp add: is_Map_def)

lemma is_Map_on_message: "is_Map m \<Longrightarrow> is_Map (fst (on_message rs now ws message m))"
  by (auto simp: on_message_def handleCreateSession_def handleJoinSession_def
      handleSignalingMessage_def Let_def is_Map_set split: option.splits)

lemma is_Map_step: "is_Map m \<Longrightarrow> is_Map (fst (step rs now e m))"
  by (cases e) (simp_all add: is_Map_on_message is_Map_on_close is_Map_cleanup)

text \<open>What the handlers do to a session that is already there.\<close>

lemma handleCreateSession_keeps:
  "map_of m p = Some s \<Longrightarrow> map_of (fst (handleCreateSession now ws data m)) p = Some s"
  by (auto simp: handleCreateSession_def Let_def map_of_Map_set Map_has_map_of)

lemma handleJoinSession_keeps_paired:
  "map_of m p = Some s \<Longrightarrow> receiver s \<noteq> None \<Longrightarrow>
     map_of (fst (handleJoinSession rs ws data m)) p = Some s"
  by (auto simp: handleJoinSession_def Let_def Map_get_def map_of_Map_set split: option.splits)

lemma handleSignalingMessage_registry:
  "fst (handleSignalingMessage rs ws data m) = m"
  by (simp add: handleSignalingMessage_def Let_def split: option.splits)

lemma on_message_keeps_paired:
  "map_of m p = Some s \<Longrightarrow> receiver s \<noteq> None \<Longrightarrow>
     map_of (fst (on_message rs now ws message m)) p = Some s"
  by (simp add: on_message_def Let_def handleCreateSession_keeps handleJoinSession_keeps_paired
      handleSignalingMessage_registry split: option.splits)


lemma join_not_found:
  "Map_get sessions (property data ''pin'') = None \<Longrightarrow>
     handleJoinSession rs ws data sessions = (sessions, [(ws, SessionNotFound)])"
  by (simp add: handleJoinSession_def Let_def)

lemma join_full:
  "Map_get sessions (property data ''pin'') = Some s \<Longrightarrow> receiver s \<noteq> None \<Longrightarrow>
     handleJoinSession rs ws data sessions = (sessions, [(ws, SessionFull)])"
  by (simp add: handleJoinSession_def Let_def)

lemma join_open:
  "Map_get sessions (property data ''pin'') = Some s \<Longrightarrow> receiver s = None \<Longrightarrow>
     handleJoinSession rs ws data sessions =
       (Map_set sessions (property data ''pin'') (s\<lparr>receiver := Some ws\<rparr>),
        (if rs (sender s) = OPEN
         then [(sender s, ReceiverJoined (fileName s) (fileSize s))] else [])
        @ [(ws, SessionJoined (fileName s) (fileSize s))])"
  by (simp add: handleJoinSession_def Let_def)

lemma create_then_get:
  "\<not> Map_has sessions (property cdata ''pin'') \<Longrightarrow>
     Map_get (fst (handleCreateSession t c cdata sessions)) (property cdata ''pin'') =
       Some \<lparr>sender = c, receiver = None, fileName = property cdata ''fileName'',
             fileSize = property cdata ''fileSize'', created = t\<rparr>"
  by (simp add: handleCreateSession_def Let_def Map_get_def map_of_Map_set)



section \<open>The claims\<close>

subsection \<open>Creating a session\<close>

text \<open>
  C1: for every pin, \<^verbatim>\<open>handleCreateSession\<close> appends a new open session (the requester as
  sender, no receiver, \<^verbatim>\<open>created\<close> the current time, the file name and size of the
  request) exactly when no session of the registry has that pin; when a session has the
  pin it replies \<^verbatim>\<open>pin-taken\<close> and the registry is what it was. After the new session is
  stored, \<^verbatim>\<open>session-created\<close> is sent to the requester, unless the log line before the
  send throws because the pin, the file name or the file size does not convert to a
  string: then the session is stored all the same and nothing is sent.
\<close>

theorem createSession_iff_pin_free:
  assumes "property data ''pin'' = pin"
  shows "(\<not> Map_has sessions pin \<longrightarrow>
            handleCreateSession now ws data sessions =
              (sessions @ [(pin, \<lparr>sender = ws, receiver = None,
                                  fileName = property data ''fileName'',
                                  fileSize = property data ''fileSize'',
                                  created = now\<rparr>)],
               if ToString_throws pin \<or> ToString_throws (property data ''fileName'')
                    \<or> ToString_throws (property data ''fileSize'')
               then []
               else [(ws, SessionCreated pin (property data ''fileName'')
                            (property data ''fileSize''))]))
       \<and> (Map_has sessions pin \<longrightarrow>
            handleCreateSession now ws data sessions = (sessions, [(ws, PinTaken)]))"
  using assms by (simp add: handleCreateSession_def Map_set_fresh Let_def)

text \<open>
  Connection 1 creates pin 1234 in the empty registry; connection 2 then asks for the same
  pin; and connection 1 creates a session under the pin of \<open>create_c\<close>, which is stored
  without a reply.
\<close>

theorem createSession_iff_pin_free_witness:
  "property create_a ''pin'' = JStr ''1234''
   \<and> \<not> Map_has [] (JStr ''1234'' :: int jsval)
   \<and> handleCreateSession 5 1 create_a []
       = ([(JStr ''1234'', session_a 5)],
          [(1, SessionCreated (JStr ''1234'') (JStr ''a.txt'') (JNum 10))])
   \<and> Map_has [(JStr ''1234'', session_a 5)] (JStr ''1234'')
   \<and> handleCreateSession 9 2 create_a [(JStr ''1234'', session_a 5)]
       = ([(JStr ''1234'', session_a 5)], [(2, PinTaken)])
   \<and> property create_c ''pin'' = pin_c
   \<and> \<not> Map_has [(JStr ''1234'', session_a 5)] pin_c
   \<and> handleCreateSession 9 1 create_c [(JStr ''1234'', session_a 5)]
       = ([(JStr ''1234'', session_a 5), (pin_c, session_c 9)], [])"
  using createSession_iff_pin_free
      [where data = create_a and pin = "JStr ''1234''" and sessions = "[]" and now = 5 and ws = 1]
    createSession_iff_pin_free
      [where data = create_a and pin = "JStr ''1234''" and sessions = "[(JStr ''1234'', session_a 5)]"
         and now = 9 and ws = 2]
    createSession_iff_pin_free
      [where data = create_c and pin = pin_c and sessions = "[(JStr ''1234'', session_a 5)]"
         and now = 9 and ws = 1]
  by (simp add: Map_has_def scenario_defs)

subsection \<open>Joining a session\<close>

text \<open>
  C2, as the code has it: a join for a pin without a session is answered
  \<^verbatim>\<open>session-not-found\<close>; a join for a session that has a receiver is answered
  \<^verbatim>\<open>session-full\<close>; otherwise the joiner becomes the receiver and is sent
  \<^verbatim>\<open>session-joined\<close> with the file name and size the session holds, which are the ones of
  the request that created it, and the sender of the session is sent \<^verbatim>\<open>receiver-joined\<close>
  with the same two values when its connection is in the open state, and nothing when it
  is not.
\<close>

theorem joinSession_replies:
  assumes "property data ''pin'' = pin"
  shows "(Map_get sessions pin = None \<longrightarrow>
            handleJoinSession rs ws data sessions = (sessions, [(ws, SessionNotFound)]))
       \<and> (Map_get sessions pin = Some s \<and> receiver s \<noteq> None \<longrightarrow>
            handleJoinSession rs ws data sessions = (sessions, [(ws, SessionFull)]))
       \<and> (Map_get sessions pin = Some s \<and> receiver s = None \<longrightarrow>
            handleJoinSession rs ws data sessions =
              (Map_set sessions pin (s\<lparr>receiver := Some ws\<rparr>),
               (if rs (sender s) = OPEN
                then [(sender s, ReceiverJoined (fileName s) (fileSize s))] else [])
               @ [(ws, SessionJoined (fileName s) (fileSize s))])
            \<and> Map_get (Map_set sessions pin (s\<lparr>receiver := Some ws\<rparr>)) pin
                = Some (s\<lparr>receiver := Some ws\<rparr>))
       \<and> (\<not> Map_has sessions pin \<and> property cdata ''pin'' = pin \<longrightarrow>
            snd (handleJoinSession rs ws data
                   (fst (handleCreateSession t c cdata sessions))) =
              (if rs c = OPEN
               then [(c, ReceiverJoined (property cdata ''fileName'')
                            (property cdata ''fileSize''))] else [])
              @ [(ws, SessionJoined (property cdata ''fileName'')
                        (property cdata ''fileSize''))])"
proof (intro conjI impI)
  assume "Map_get sessions pin = None"
  then show "handleJoinSession rs ws data sessions = (sessions, [(ws, SessionNotFound)])"
    using assms by (simp add: join_not_found)
next
  assume "Map_get sessions pin = Some s \<and> receiver s \<noteq> None"
  then show "handleJoinSession rs ws data sessions = (sessions, [(ws, SessionFull)])"
    using assms join_full [of sessions data s rs ws] by simp
next
  assume "Map_get sessions pin = Some s \<and> receiver s = None"
  then show "handleJoinSession rs ws data sessions =
              (Map_set sessions pin (s\<lparr>receiver := Some ws\<rparr>),
               (if rs (sender s) = OPEN
                then [(sender s, ReceiverJoined (fileName s) (fileSize s))] else [])
               @ [(ws, SessionJoined (fileName s) (fileSize s))])"
    using assms join_open [of sessions data s rs ws] by simp
next
  show "Map_get (Map_set sessions pin (s\<lparr>receiver := Some ws\<rparr>)) pin
                = Some (s\<lparr>receiver := Some ws\<rparr>)"
    by (simp add: Map_get_def map_of_Map_set)
next
  assume a: "\<not> Map_has sessions pin \<and> property cdata ''pin'' = pin"
  let ?new = "\<lparr>sender = c, receiver = None, fileName = property cdata ''fileName'',
             fileSize = property cdata ''fileSize'', created = t\<rparr>"
  have "Map_get (fst (handleCreateSession t c cdata sessions)) (property data ''pin'')
          = Some ?new"
    using a assms create_then_get [of sessions cdata t c] by simp
  then show "snd (handleJoinSession rs ws data
                   (fst (handleCreateSession t c cdata sessions))) =
              (if rs c = OPEN
               then [(c, ReceiverJoined (property cdata ''fileName'')
                            (property cdata ''fileSize''))] else [])
              @ [(ws, SessionJoined (property cdata ''fileName'')
                        (property cdata ''fileSize''))]"
    using join_open [of "fst (handleCreateSession t c cdata sessions)" data ?new rs ws]
    by simp
qed

text \<open>
  The three answers on small registries, and the scenario of the specification: create
  1234 for a.txt of size 10, then join from a second connection.
\<close>

theorem joinSession_replies_witness:
  "property join_1234 ''pin'' = JStr ''1234''
   \<and> handleJoinSession all_open 2 join_1234 [] = ([], [(2, SessionNotFound)])
   \<and> handleJoinSession all_open 3 join_1234 [(JStr ''1234'', (session_a 5)\<lparr>receiver := Some 2\<rparr>)]
       = ([(JStr ''1234'', (session_a 5)\<lparr>receiver := Some 2\<rparr>)], [(3, SessionFull)])
   \<and> handleJoinSession all_open 2 join_1234 [(JStr ''1234'', session_a 5)]
       = ([(JStr ''1234'', (session_a 5)\<lparr>receiver := Some 2\<rparr>)], [(1, ReceiverJoined (JStr ''a.txt'') (JNum 10)), (2, SessionJoined (JStr ''a.txt'') (JNum 10))])
   \<and> snd (handleJoinSession all_open 2 join_1234 (fst (handleCreateSession 5 1 create_a [])))
       = [(1, ReceiverJoined (JStr ''a.txt'') (JNum 10)), (2, SessionJoined (JStr ''a.txt'') (JNum 10))]"
  using joinSession_replies
      [where data = join_1234 and pin = "JStr ''1234''" and sessions = "[]" and rs = all_open
         and ws = 2 and cdata = create_a and t = 5 and c = 1]
    joinSession_replies
      [where data = join_1234 and pin = "JStr ''1234''" and sessions = "[(JStr ''1234'', (session_a 5)\<lparr>receiver := Some 2\<rparr>)]"
         and s = "(session_a 5)\<lparr>receiver := Some 2\<rparr>" and rs = all_open and ws = 3]
    joinSession_replies
      [where data = join_1234 and pin = "JStr ''1234''" and sessions = "[(JStr ''1234'', session_a 5)]"
         and s = "session_a 5" and rs = all_open and ws = 2]
  by (simp add: Map_get_def Map_has_def scenario_defs)

text \<open>
  The sentence without the condition on the state of the sender's connection fails: the
  session of pin 1234 is open, connection 1 that created it is closing, and the join of
  connection 2 sends one message only, to connection 2.
\<close>

theorem joinSession_initiator_closing_counterexample:
  "Map_get [(JStr ''1234'', session_a 5)] (property join_1234 ''pin'') = Some (session_a 5)
   \<and> receiver (session_a 5) = None
   \<and> handleJoinSession (all_open(1 := CLOSING)) 2 join_1234 [(JStr ''1234'', session_a 5)]
       = ([(JStr ''1234'', (session_a 5)\<lparr>receiver := Some 2\<rparr>)], [(2, SessionJoined (JStr ''a.txt'') (JNum 10))])"
  by (simp add: handleJoinSession_def Map_get_def scenario_defs)

subsection \<open>Expiry\<close>

text \<open>
  C3, as the code has it: in a registry with pairwise different keys, a sweep at time
  \<open>now\<close> keeps the session created at time \<open>T\<close>, unchanged, when \<open>now \<le> T + max_age\<close>,
  and a sweep that runs to its end removes it when \<open>T + max_age < now\<close>; \<open>max_age\<close> is
  the hour of the source. A sweep runs to its end when every pin of the registry converts
  to a string. What a sweep that ends in the exception of its log line leaves behind is
  not part of the statement.
\<close>

theorem cleanup_by_age:
  assumes "is_Map sessions" and "Map_get sessions pin = Some s"
  shows "(now \<le> created s + max_age \<longrightarrow> Map_get (cleanup now sessions) pin = Some s)
       \<and> (created s + max_age < now \<and> \<not> cleanup_throws now sessions \<longrightarrow>
            Map_get (cleanup now sessions) pin = None)
       \<and> ((\<forall>k \<in> set (map fst sessions). \<not> ToString_throws k) \<longrightarrow>
            \<not> cleanup_throws now sessions)"
proof (intro conjI impI)
  have m: "map_of sessions pin = Some s"
    using assms(2) by (simp add: Map_get_def)
  have in_m: "(pin, s) \<in> set sessions"
    using m by (rule map_of_SomeD)
  have d: "distinct (map fst sessions)"
    using assms(1) by (simp add: is_Map_def)
  have uniq: "\<And>s'. (pin, s') \<in> set sessions \<Longrightarrow> s' = s"
    by (rule eq_key_imp_eq_value [OF d _ in_m])
  {
    assume young: "now \<le> created s + max_age"
    have "\<And>s'. (pin, s') \<in> set sessions \<Longrightarrow> \<not> max_age < now - created s'"
      using uniq young by fastforce
    then have "map_of (fst (cleanup_loop now sessions sessions)) pin = map_of sessions pin"
      by (rule cleanup_loop_keeps)
    then show "Map_get (cleanup now sessions) pin = Some s"
      using m by (simp add: Map_get_def cleanup_def)
  }
  {
    assume "created s + max_age < now \<and> \<not> cleanup_throws now sessions"
    then have old: "max_age < now - created s"
      and nt: "\<not> snd (cleanup_loop now sessions sessions)"
      by (simp_all add: cleanup_throws_def)
    show "Map_get (cleanup now sessions) pin = None"
      using cleanup_loop_removes [OF nt in_m old] by (simp add: Map_get_def cleanup_def)
  }
  {
    assume "\<forall>k \<in> set (map fst sessions). \<not> ToString_throws k"
    then have "\<And>k. k \<in> fst ` set sessions \<Longrightarrow> \<not> ToString_throws k"
      by auto
    then show "\<not> cleanup_throws now sessions"
      unfolding cleanup_throws_def by (rule cleanup_loop_no_throw)
  }
qed

text \<open>
  A session created at time 0 is gone after a sweep one millisecond past the hour and is
  still there after a sweep one millisecond before it.
\<close>

theorem cleanup_by_age_witness:
  "is_Map [(JStr ''1234'', session_a 0)]
   \<and> Map_get [(JStr ''1234'', session_a 0)] (JStr ''1234'') = Some (session_a 0)
   \<and> \<not> cleanup_throws 3600001 [(JStr ''1234'', session_a 0)]
   \<and> Map_get (cleanup 3600001 [(JStr ''1234'', session_a 0)]) (JStr ''1234'') = None
   \<and> Map_get (cleanup 3599999 [(JStr ''1234'', session_a 0)]) (JStr ''1234'') = Some (session_a 0)"
  using cleanup_by_age
      [where sessions = "[(JStr ''1234'', session_a 0)]" and pin = "JStr ''1234''" and s = "session_a 0"
         and now = 3600001]
    cleanup_by_age
      [where sessions = "[(JStr ''1234'', session_a 0)]" and pin = "JStr ''1234''" and s = "session_a 0"
         and now = 3599999]
  by (simp add: is_Map_def Map_get_def max_age_def scenario_defs)

text \<open>
  At exactly \<open>T + max_age\<close> the session is kept, where the sentence with \<open>\<ge>\<close> has it
  removed: the source compares with \<^verbatim>\<open>>\<close>. The pin is a string and the sweep runs to its
  end.
\<close>

theorem cleanup_at_max_age_counterexample:
  "created (session_a 0) + max_age \<le> 3600000
   \<and> Map_get [(JStr ''1234'', session_a 0)] (JStr ''1234'') = Some (session_a 0)
   \<and> \<not> cleanup_throws 3600000 [(JStr ''1234'', session_a 0)]
   \<and> Map_get (cleanup 3600000 [(JStr ''1234'', session_a 0)]) (JStr ''1234'') = Some (session_a 0)"
  by (simp add: cleanup_def cleanup_throws_def Map_get_def Map_delete_def max_age_def
      scenario_defs)

subsection \<open>Forwarding\<close>




subsection \<open>Cleanup when a connection closes\<close>

text \<open>
  C5 says that after the close event of a connection no session it was bound to remains.
  The close handler stops at the first entry it deletes. Connection 1 creates the pins
  1111 and 2222 and closes: the session of pin 2222 is still in the registry, an offer
  for that pin from connection 2 is not answered \<^verbatim>\<open>session-not-found\<close>, and connection 2
  can join the session of the connection that is gone.
\<close>

theorem close_leaves_later_session:
  "fst (on_message all_open 6 1 (Some create_b)
         (fst (on_message all_open 5 1 (Some create_a') [])))
     = [(JStr ''1111'', session_a 5), (JStr ''2222'', session_b 6)]
   \<and> on_close 1 [(JStr ''1111'', session_a 5), (JStr ''2222'', session_b 6)] = [(JStr ''2222'', session_b 6)]
   \<and> on_message (all_open(1 := CLOSED)) 7 2 (Some offer_2222) [(JStr ''2222'', session_b 6)]
     = ([(JStr ''2222'', session_b 6)], [])
   \<and> on_message (all_open(1 := CLOSED)) 8 2 (Some join_2222) [(JStr ''2222'', session_b 6)]
     = ([(JStr ''2222'', (session_b 6)\<lparr>receiver := Some 2\<rparr>)],
        [(2, SessionJoined (JStr ''b.txt'') (JNum 20))])"
  by (simp add: on_message_def handleCreateSession_def Let_def Map_has_def on_close_def
      Map_delete_def handleSignalingMessage_def handleJoinSession_def targetWs_def Map_get_def
      scenario_defs)

subsection \<open>A paired session is not written again\<close>

text \<open>
  C6: when the session of a pin has a receiver, a join for that pin is answered
  \<^verbatim>\<open>session-full\<close> and leaves the registry as it is; and after any event of the server,
  in any surroundings, the pin has either no session or the very same session, with the
  same receiver and the same other fields. So a second join never succeeds on a session.
\<close>

theorem paired_session_fixed:
  assumes "Map_get sessions pin = Some s" and "receiver s = Some r"
  shows "(property data ''pin'' = pin \<longrightarrow>
            handleJoinSession rs ws data sessions = (sessions, [(ws, SessionFull)]))
       \<and> (Map_get (fst (step rs' now e sessions)) pin = None
            \<or> Map_get (fst (step rs' now e sessions)) pin = Some s)"
proof -
  have m: "map_of sessions pin = Some s" and r: "receiver s \<noteq> None"
    using assms by (simp_all add: Map_get_def)
  have "property data ''pin'' = pin \<longrightarrow>
          handleJoinSession rs ws data sessions = (sessions, [(ws, SessionFull)])"
    using assms by (simp add: handleJoinSession_def Let_def)
  moreover have "Map_get (fst (step rs' now e sessions)) pin = None
            \<or> Map_get (fst (step rs' now e sessions)) pin = Some s"
  proof (cases e)
    case (Message w msg)
    then show ?thesis using on_message_keeps_paired [OF m r] by (simp add: Map_get_def)
  next
    case (Close w)
    then show ?thesis using map_of_on_close_cases [of w sessions pin] m
      by (simp add: Map_get_def)
  next
    case (Error w)
    then show ?thesis using m by (simp add: Map_get_def)
  next
    case Timer
    then show ?thesis using map_of_cleanup_cases [of now sessions pin] m
      by (simp add: Map_get_def)
  qed
  ultimately show ?thesis by simp
qed

text \<open>
  The paired session of pin 1234: a join from connection 3 is refused and changes
  nothing; the close of connection 2 removes the session.
\<close>

theorem paired_session_fixed_witness:
  "Map_get [(JStr ''1234'', (session_a 5)\<lparr>receiver := Some 2\<rparr>)] (JStr ''1234'') = Some ((session_a 5)\<lparr>receiver := Some 2\<rparr>)
   \<and> receiver ((session_a 5)\<lparr>receiver := Some 2\<rparr>) = Some 2
   \<and> handleJoinSession all_open 3 join_1234 [(JStr ''1234'', (session_a 5)\<lparr>receiver := Some 2\<rparr>)]
       = ([(JStr ''1234'', (session_a 5)\<lparr>receiver := Some 2\<rparr>)], [(3, SessionFull)])
   \<and> Map_get (fst (step all_open 9 (Message 3 (Some join_1234)) [(JStr ''1234'', (session_a 5)\<lparr>receiver := Some 2\<rparr>)])) (JStr ''1234'')
       = Some ((session_a 5)\<lparr>receiver := Some 2\<rparr>)
   \<and> Map_get (fst (step all_open 9 (Close 2) [(JStr ''1234'', (session_a 5)\<lparr>receiver := Some 2\<rparr>)])) (JStr ''1234'') = None"
  using paired_session_fixed
      [where sessions = "[(JStr ''1234'', (session_a 5)\<lparr>receiver := Some 2\<rparr>)]" and pin = "JStr ''1234''" and s = "(session_a 5)\<lparr>receiver := Some 2\<rparr>" and r = 2
         and data = join_1234 and rs = all_open and ws = 3 and rs' = all_open and now = 9
         and e = "Message 3 (Some join_1234)"]
    paired_session_fixed
      [where sessions = "[(JStr ''1234'', (session_a 5)\<lparr>receiver := Some 2\<rparr>)]" and pin = "JStr ''1234''" and s = "(session_a 5)\<lparr>receiver := Some 2\<rparr>" and r = 2
         and data = join_1234 and rs = all_open and ws = 3 and rs' = all_open and now = 9
         and e = "Close 2"]
  by (simp add: Map_get_def on_close_def Map_delete_def on_message_def handleJoinSession_def
      scenario_defs)

subsection \<open>Signaling that cannot be delivered\<close>

text \<open>
  C7: a signaling message for a pin without a session is answered \<^verbatim>\<open>session-not-found\<close>;
  when the session exists and the sender of the message is its sender while no receiver
  has joined, or the other end's connection is not in the open state, nothing is sent to
  anybody and the registry is unchanged.
\<close>

theorem signaling_not_found_or_dropped:
  assumes "property data ''pin'' = pin"
  shows "(Map_get sessions pin = None \<longrightarrow>
            handleSignalingMessage rs ws data sessions = (sessions, [(ws, SessionNotFound)]))
       \<and> (Map_get sessions pin = Some s \<and> sender s = ws \<and> receiver s = None \<longrightarrow>
            handleSignalingMessage rs ws data sessions = (sessions, []))
       \<and> (Map_get sessions pin = Some s \<and> targetWs s ws = Some t \<and> rs t \<noteq> OPEN \<longrightarrow>
            handleSignalingMessage rs ws data sessions = (sessions, []))"
  using assms by (auto simp: handleSignalingMessage_def Let_def targetWs_def)

text \<open>
  An offer of connection 1 for pin 1234: no such session; the session still open; the
  session paired with a receiver whose connection is closing.
\<close>

theorem signaling_not_found_or_dropped_witness:
  "property offer_1234 ''pin'' = JStr ''1234''
   \<and> handleSignalingMessage all_open 1 offer_1234 [] = ([], [(1, SessionNotFound)])
   \<and> handleSignalingMessage all_open 1 offer_1234 [(JStr ''1234'', session_a 5)]
       = ([(JStr ''1234'', session_a 5)], [])
   \<and> targetWs ((session_a 5)\<lparr>receiver := Some 2\<rparr>) 1 = Some 2
   \<and> handleSignalingMessage (all_open(2 := CLOSING)) 1 offer_1234 [(JStr ''1234'', (session_a 5)\<lparr>receiver := Some 2\<rparr>)]
       = ([(JStr ''1234'', (session_a 5)\<lparr>receiver := Some 2\<rparr>)], [])"
  using signaling_not_found_or_dropped
      [where data = offer_1234 and pin = "JStr ''1234''" and sessions = "[]" and rs = all_open
         and ws = 1]
    signaling_not_found_or_dropped
      [where data = offer_1234 and pin = "JStr ''1234''" and sessions = "[(JStr ''1234'', session_a 5)]"
         and s = "session_a 5" and rs = all_open and ws = 1]
    signaling_not_found_or_dropped
      [where data = offer_1234 and pin = "JStr ''1234''" and sessions = "[(JStr ''1234'', (session_a 5)\<lparr>receiver := Some 2\<rparr>)]"
         and s = "(session_a 5)\<lparr>receiver := Some 2\<rparr>" and t = 2 and rs = "all_open(2 := CLOSING)" and ws = 1]
  by (simp add: Map_get_def targetWs_def scenario_defs)

subsection \<open>Which sends look at the state of the connection\<close>




subsection \<open>One connection in two sessions\<close>

text \<open>
  C9: \<^verbatim>\<open>handleCreateSession\<close> does not look at the sessions the requester already has. A
  connection that is the sender of a session and asks for a pin no session has gets the new
  session stored as well (and the reply \<^verbatim>\<open>session-created\<close>, unless the log line throws),
  and is then the sender of both. When it closes, the close handler deletes the key of
  the first entry, in the order of the registry, that has the connection as sender or
  receiver, and no other: that key is one that was there before, its session is gone
  afterwards, every other pin has the session it had, and so the session just created
  stays. The handler ends in an uncaught exception exactly when the deleted key does not
  convert to a string.
\<close>

theorem second_session_survives_close:
  assumes "Map_get sessions p = Some s" and "sender s = ws"
    and "property data ''pin'' = pin" and "\<not> Map_has sessions pin"
    and "new = \<lparr>sender = ws, receiver = None, fileName = property data ''fileName'',
                  fileSize = property data ''fileSize'', created = now\<rparr>"
    and "m' = sessions @ [(pin, new)]"
  shows "handleCreateSession now ws data sessions =
           (m', if ToString_throws pin \<or> ToString_throws (property data ''fileName'')
                     \<or> ToString_throws (property data ''fileSize'')
                then []
                else [(ws, SessionCreated pin (property data ''fileName'')
                             (property data ''fileSize''))])
       \<and> Map_get m' p = Some s \<and> Map_get m' pin = Some new \<and> sender new = ws
       \<and> (\<exists>q sq. find (\<lambda>e. sender (snd e) = ws \<or> receiver (snd e) = Some ws) m'
                  = Some (q, sq)
              \<and> q \<noteq> pin
              \<and> on_close ws m' = Map_delete m' q
              \<and> on_close_throws ws m' = ToString_throws q
              \<and> Map_get (on_close ws m') q = None
              \<and> (\<forall>k. k \<noteq> q \<longrightarrow> Map_get (on_close ws m') k = Map_get m' k))
       \<and> Map_get (on_close ws m') pin = Some new"
proof -
  let ?P = "\<lambda>e. sender (snd e) = ws \<or> receiver (snd e) = Some (ws::ws)"
  have fresh: "map_of sessions pin = None"
    using assms(4) by (simp add: Map_has_map_of)
  have in_m: "(p, s) \<in> set sessions"
    using assms(1) unfolding Map_get_def by (rule map_of_SomeD)
  have "?P (p, s)" using assms(2) by simp
  then obtain x where x: "x \<in> set sessions" "find ?P (sessions @ [(pin, new)]) = Some x"
    using find_in_prefix [OF in_m, of ?P "[(pin, new)]"] by blast
  obtain q sq where qs: "x = (q, sq)" by (cases x)
  have found: "find ?P m' = Some (q, sq)"
    using x(2) qs assms(6) by simp
  have "q \<in> fst ` set sessions"
    using x(1) qs by force
  then have q_old: "q \<noteq> pin"
    using assms(4) by (auto simp: Map_has_def)
  have closed: "close_loop ws m' m' = (Map_delete m' q, ToString_throws q)"
    by (simp add: close_loop_find found)
  have c1: "on_close ws m' = Map_delete m' q"
    by (simp add: on_close_def closed)
  have c2: "on_close_throws ws m' = ToString_throws q"
    by (simp add: on_close_throws_def closed)
  have c3: "Map_get (on_close ws m') q = None"
    by (simp add: c1 Map_get_def map_of_Map_delete)
  have c4: "\<forall>k. k \<noteq> q \<longrightarrow> Map_get (on_close ws m') k = Map_get m' k"
    by (simp add: c1 Map_get_def map_of_Map_delete)
  have g_new: "Map_get m' pin = Some new"
    using fresh by (simp add: assms(6) Map_get_def map_add_def)
  have g_old: "Map_get m' p = Some s"
    using assms(1) by (simp add: assms(6) Map_get_def map_add_def)
  have created: "handleCreateSession now ws data sessions =
           (m', if ToString_throws pin \<or> ToString_throws (property data ''fileName'')
                     \<or> ToString_throws (property data ''fileSize'')
                then []
                else [(ws, SessionCreated pin (property data ''fileName'')
                             (property data ''fileSize''))])"
    using assms(3,4)
    by (simp add: handleCreateSession_def Let_def Map_set_fresh assms(5,6))
  have stays: "Map_get (on_close ws m') pin = Some new"
    using c4 q_old g_new by simp
  have "sender new = ws" by (simp add: assms(5))
  with created g_old g_new found q_old c1 c2 c3 c4 stays show ?thesis
    by blast
qed

text \<open>
  Connection 1 holds pin 1111 and creates pin 2222; its close removes pin 1111, the first
  entry with connection 1, and leaves pin 2222.
\<close>

theorem second_session_survives_close_witness:
  "Map_get [(JStr ''1111'', session_a 5)] (JStr ''1111'') = Some (session_a 5)
   \<and> sender (session_a 5) = 1
   \<and> \<not> Map_has [(JStr ''1111'', session_a 5)] (JStr ''2222'')
   \<and> handleCreateSession 6 1 create_b [(JStr ''1111'', session_a 5)]
     = ([(JStr ''1111'', session_a 5), (JStr ''2222'', session_b 6)],
        [(1, SessionCreated (JStr ''2222'') (JStr ''b.txt'') (JNum 20))])
   \<and> find (\<lambda>e. sender (snd e) = 1 \<or> receiver (snd e) = Some 1)
         [(JStr ''1111'', session_a 5), (JStr ''2222'', session_b 6)]
     = Some (JStr ''1111'', session_a 5)
   \<and> on_close 1 [(JStr ''1111'', session_a 5), (JStr ''2222'', session_b 6)] = [(JStr ''2222'', session_b 6)]
   \<and> \<not> on_close_throws 1 [(JStr ''1111'', session_a 5), (JStr ''2222'', session_b 6)]
   \<and> Map_get (on_close 1 [(JStr ''1111'', session_a 5), (JStr ''2222'', session_b 6)]) (JStr ''1111'') = None
   \<and> Map_get (on_close 1 [(JStr ''1111'', session_a 5), (JStr ''2222'', session_b 6)]) (JStr ''2222'') = Some (session_b 6)"
  using second_session_survives_close
      [where sessions = "[(JStr ''1111'', session_a 5)]" and p = "JStr ''1111''" and s = "session_a 5"
         and ws = 1 and data = create_b and pin = "JStr ''2222''" and now = 6 and new = "session_b 6"
         and m' = "[(JStr ''1111'', session_a 5), (JStr ''2222'', session_b 6)]"]
  by (simp add: Map_get_def Map_has_def Map_delete_def scenario_defs)

subsection \<open>Signaling from a connection outside the session\<close>

text \<open>
  C10: a signaling message with the pin of a session, from a connection that is neither
  the sender nor the receiver of that session, is forwarded to nobody, gets no reply, and
  leaves the registry as it is.
\<close>

theorem stranger_signaling_dropped:
  assumes "Map_get sessions (property data ''pin'') = Some s"
    and "sender s \<noteq> ws" and "receiver s \<noteq> Some ws"
  shows "handleSignalingMessage rs ws data sessions = (sessions, [])"
  using assms by (simp add: handleSignalingMessage_def Let_def targetWs_def)

text \<open>
  Connection 3 sends an offer for the paired session of connections 1 and 2.
\<close>

theorem stranger_signaling_dropped_witness:
  "Map_get [(JStr ''1234'', (session_a 5)\<lparr>receiver := Some 2\<rparr>)] (property offer_1234 ''pin'') = Some ((session_a 5)\<lparr>receiver := Some 2\<rparr>)
   \<and> sender ((session_a 5)\<lparr>receiver := Some 2\<rparr>) \<noteq> 3
   \<and> receiver ((session_a 5)\<lparr>receiver := Some 2\<rparr>) \<noteq> Some 3
   \<and> handleSignalingMessage all_open 3 offer_1234 [(JStr ''1234'', (session_a 5)\<lparr>receiver := Some 2\<rparr>)]
       = ([(JStr ''1234'', (session_a 5)\<lparr>receiver := Some 2\<rparr>)], [])"
  using stranger_signaling_dropped
      [where sessions = "[(JStr ''1234'', (session_a 5)\<lparr>receiver := Some 2\<rparr>)]" and data = offer_1234 and s = "(session_a 5)\<lparr>receiver := Some 2\<rparr>"
         and ws = 3 and rs = all_open]
  by (simp add: Map_get_def scenario_defs)

end
